theory Spec2Isabelle
  imports Complex_Main
begin

section \<open>Values shared by the scraper\<close>

text \<open>
  The embedding follows \<^verbatim>\<open>final1.py\<close>, class \<^verbatim>\<open>BasicRealEstateScraper\<close>.
  Python strings are modelled as \<^typ>\<open>string\<close>; code points above 255 are outside the
  model. Python floats are modelled by their exact rational value (every finite double
  is a rational, and comparison and equality agree on them); the rounding done by
  \<^verbatim>\<open>float()\<close> is not modelled. Exceptions are values of type \<open>error\<close> on the left
  of a sum.
\<close>

datatype error = ValueError | KeyError | RequestException | ParserError

type_synonym pyfloat = rat

subsection \<open>Character classes and \<^verbatim>\<open>str.strip\<close>\<close>

definition is_digit :: "char \<Rightarrow> bool" where
  \<comment> \<open>\<^verbatim>\<open>\d\<close>: the decimal digits; below code point 256 these are \<^verbatim>\<open>0\<close> to \<^verbatim>\<open>9\<close>.\<close>
  "is_digit c = (48 \<le> (of_char c :: nat) \<and> (of_char c :: nat) \<le> 57)"

definition is_space :: "char \<Rightarrow> bool" where
  \<comment> \<open>\<^verbatim>\<open>str.isspace\<close> below code point 256.\<close>
  "is_space c =
     (let n = (of_char c :: nat)
      in (9 \<le> n \<and> n \<le> 13) \<or> (28 \<le> n \<and> n \<le> 32) \<or> n = 133 \<or> n = 160)"

definition strip :: "string \<Rightarrow> string" where
  \<comment> \<open>\<^verbatim>\<open>s.strip()\<close>: leading and trailing whitespace removed.\<close>
  "strip s = rev (dropWhile is_space (rev (dropWhile is_space s)))"

section \<open>\<^verbatim>\<open>extract_price\<close>\<close>

definition price_char :: "char \<Rightarrow> bool" where
  \<comment> \<open>The character class \<^verbatim>\<open>[\d.]\<close>.\<close>
  "price_char c = (is_digit c \<or> c = CHR ''.'')"

definition re_search_price :: "string \<Rightarrow> string option" where
  \<comment> \<open>\<^verbatim>\<open>re.search(r'[\d.]+', s)\<close>: the leftmost match, extended greedily;
      \<open>None\<close> when no character of the class occurs. The value is \<^verbatim>\<open>group()\<close>.\<close>
  "re_search_price s =
     (case dropWhile (\<lambda>c. \<not> price_char c) s of
        [] \<Rightarrow> None
      | c # r \<Rightarrow> Some (takeWhile price_char (c # r)))"

fun digits_val :: "string \<Rightarrow> nat \<Rightarrow> nat" where
  \<comment> \<open>The number written by a run of decimal digits, most significant first.\<close>
  "digits_val [] acc = acc"
| "digits_val (c # cs) acc = digits_val cs (10 * acc + ((of_char c :: nat) - 48))"

definition py_float :: "string \<Rightarrow> error + pyfloat" where
  \<comment> \<open>\<^verbatim>\<open>float(s)\<close> for a string of digits and dots, the only strings
      \<open>re_search_price\<close> hands over: digits with at most one dot and at least one digit
      parse (\<^verbatim>\<open>"85"\<close>, \<^verbatim>\<open>"85."\<close>, \<^verbatim>\<open>".5"\<close>, \<^verbatim>\<open>"85.5"\<close>); anything else
      (\<^verbatim>\<open>"."\<close>, \<^verbatim>\<open>"1.2.3"\<close>) raises \<^verbatim>\<open>ValueError\<close>. The value is the
      exact decimal: where \<^verbatim>\<open>float()\<close> rounds to the nearest double, gives
      \<^verbatim>\<open>0.0\<close> for a decimal below the smallest double and \<^verbatim>\<open>inf\<close> for one above
      the largest, the model differs. No statement below depends on the value of a parse
      other than at texts that a double holds exactly.\<close>
  "py_float s =
     (let ip = takeWhile is_digit s
      in case dropWhile is_digit s of
           [] \<Rightarrow> if ip = [] then Inl ValueError else Inr (of_nat (digits_val ip 0))
         | c # fp \<Rightarrow>
             if c = CHR ''.'' \<and> list_all is_digit fp \<and> (ip \<noteq> [] \<or> fp \<noteq> [])
             then Inr (of_nat (digits_val ip 0) + of_nat (digits_val fp 0) / 10 ^ length fp)
             else Inl ValueError)"

definition extract_price :: "string option \<Rightarrow> error + pyfloat option" where
  \<comment> \<open>\<^verbatim>\<open>if not price_text: return None\<close> covers \<^verbatim>\<open>None\<close> and the empty string.\<close>
  "extract_price price_text =
     (case price_text of
        None \<Rightarrow> Inr None
      | Some t \<Rightarrow>
          if t = [] then Inr None
          else (case re_search_price t of
                  None \<Rightarrow> Inr None
                | Some m \<Rightarrow> (case py_float m of Inl e \<Rightarrow> Inl e | Inr v \<Rightarrow> Inr (Some v))))"

section \<open>\<^verbatim>\<open>analyze_sentiment\<close>\<close>

definition analyze_sentiment :: "(string \<Rightarrow> pyfloat) \<Rightarrow> string option \<Rightarrow> pyfloat option" where
  \<comment> \<open>\<^verbatim>\<open>if text:\<close> is false for \<^verbatim>\<open>None\<close> and for the empty string; the polarity
      of \<^verbatim>\<open>TextBlob\<close> is a parameter.\<close>
  "analyze_sentiment polarity text =
     (case text of
        None \<Rightarrow> None
      | Some t \<Rightarrow> if t = [] then None else Some (polarity t))"

section \<open>Cards, listings and the card loop\<close>

text \<open>
  A card is what the four lookups of the card loop see of one
  \<^verbatim>\<open>div.mb-srp__card\<close>: the \<^verbatim>\<open>.text\<close> of the price, title and area blocks when
  \<^verbatim>\<open>card.find\<close> finds them, and the attributes of the first \<^verbatim>\<open>a\<close> element.
  A found element is always truthy.
\<close>

record card =
  price_elem :: "string option"
  title_elem :: "string option"
  area_elem :: "string option"
  a_elem :: "(string \<rightharpoonup> string) option"

record listing =
  price :: "pyfloat option"
  title :: "string option"
  area :: "string option"
  url :: "string option"
  sentiment :: "pyfloat option"

definition base_url :: string where
  "base_url = ''https://www.magicbricks.com''"

definition card_url :: "card \<Rightarrow> error + string option" where
  \<comment> \<open>\<^verbatim>\<open>self.base_url + card.find('a')['href'] if card.find('a') else None\<close>:
      subscripting a tag without the attribute raises \<^verbatim>\<open>KeyError\<close>.\<close>
  "card_url c =
     (case a_elem c of
        None \<Rightarrow> Inr None
      | Some attrs \<Rightarrow>
          (case attrs ''href'' of
             None \<Rightarrow> Inl KeyError
           | Some h \<Rightarrow> Inr (Some (base_url @ h))))"

definition make_listing :: "(string \<Rightarrow> pyfloat) \<Rightarrow> card \<Rightarrow> error + listing" where
  \<comment> \<open>The dictionary display of the card loop, its values evaluated in order.\<close>
  "make_listing polarity c =
     (let title = map_option strip (title_elem c)
      in case extract_price (map_option strip (price_elem c)) of
           Inl e \<Rightarrow> Inl e
         | Inr p \<Rightarrow>
             (case card_url c of
                Inl e \<Rightarrow> Inl e
              | Inr u \<Rightarrow>
                  Inr \<lparr>price = p, title = title,
                       area = map_option strip (area_elem c),
                       url = u, sentiment = analyze_sentiment polarity title\<rparr>))"

definition truthy :: "pyfloat option \<Rightarrow> bool" where
  \<comment> \<open>\<^verbatim>\<open>if listing['price']:\<close>: \<^verbatim>\<open>None\<close> and \<^verbatim>\<open>0.0\<close> are false.\<close>
  "truthy p = (case p of None \<Rightarrow> False | Some v \<Rightarrow> v \<noteq> 0)"

fun card_loop :: "(string \<Rightarrow> pyfloat) \<Rightarrow> card list \<Rightarrow> listing list \<Rightarrow> listing list" where
  \<comment> \<open>\<^verbatim>\<open>for card in property_cards\<close>; an exception in the body is caught and the
      loop goes on with the next card.\<close>
  "card_loop polarity [] listings = listings"
| "card_loop polarity (c # cs) listings =
     (case make_listing polarity c of
        Inl e \<Rightarrow> card_loop polarity cs listings
      | Inr l \<Rightarrow>
          if truthy (price l) then card_loop polarity cs (listings @ [l])
          else card_loop polarity cs listings)"

section \<open>\<^verbatim>\<open>scrape_listings\<close>\<close>

text \<open>
  The collaborators are parameters: \<open>requests_get\<close> answers a URL with a response or
  raises, \<open>find_cards\<close> is \<^verbatim>\<open>BeautifulSoup(...).find_all\<close> on the content,
  \<open>polarity\<close> is the sentiment of \<^verbatim>\<open>TextBlob\<close> and \<open>rake\<close> is
  \<^verbatim>\<open>extract_keywords_from_text\<close> followed by \<^verbatim>\<open>get_ranked_phrases_with_scores\<close>.
  The run records its calls to \<^verbatim>\<open>requests.get\<close> and \<^verbatim>\<open>sleep\<close> in a trace;
  printing is left out.
\<close>

record response =
  status_code :: int
  content :: string

record env =
  requests_get :: "string \<Rightarrow> error + response"
  find_cards :: "string \<Rightarrow> error + card list"
  polarity :: "string \<Rightarrow> pyfloat"
  rake :: "string \<Rightarrow> (pyfloat \<times> string) list"

datatype event = Get string | Sleep nat

record run_state =
  listings :: "listing list"
  trace :: "event list"

fun str_nat :: "nat \<Rightarrow> string" where
  "str_nat n =
     (if n < 10 then [char_of (48 + n)]
      else str_nat (n div 10) @ [char_of (48 + n mod 10)])"

declare str_nat.simps [simp del]

definition str_int :: "int \<Rightarrow> string" where
  \<comment> \<open>\<^verbatim>\<open>str(page)\<close>\<close>
  "str_int i = (if i < 0 then CHR ''-'' # str_nat (nat (- i)) else str_nat (nat i))"

definition page_url :: "string \<Rightarrow> int \<Rightarrow> string" where
  "page_url city page =
     base_url @ ''/property-for-sale/residential-real-estate?&cityName='' @ city
       @ ''&page='' @ str_int page"

definition scrape_page :: "env \<Rightarrow> string \<Rightarrow> int \<Rightarrow> run_state \<Rightarrow> run_state" where
  \<comment> \<open>One pass of the page loop. Both \<^verbatim>\<open>continue\<close> statements and the
      \<^verbatim>\<open>except\<close> clause leave the body before \<^verbatim>\<open>sleep(2)\<close>.\<close>
  "scrape_page E city page s =
     (let u = page_url city page;
          s1 = s\<lparr>trace := trace s @ [Get u]\<rparr>
      in case requests_get E u of
           Inl e \<Rightarrow> s1
         | Inr r \<Rightarrow>
             if status_code r \<noteq> 200 then s1
             else (case find_cards E (content r) of
                     Inl e \<Rightarrow> s1
                   | Inr cards \<Rightarrow>
                       s1\<lparr>listings := card_loop (polarity E) cards (listings s1),
                          trace := trace s1 @ [Sleep 2]\<rparr>))"

fun page_loop :: "env \<Rightarrow> string \<Rightarrow> int list \<Rightarrow> run_state \<Rightarrow> run_state" where
  \<comment> \<open>\<^verbatim>\<open>for page in range(1, max_pages + 1)\<close>\<close>
  "page_loop E city [] s = s"
| "page_loop E city (page # pages) s = page_loop E city pages (scrape_page E city page s)"

record dataframe =
  columns :: "string list"
  rows :: "listing list"

definition DataFrame :: "listing list \<Rightarrow> dataframe" where
  \<comment> \<open>\<^verbatim>\<open>pd.DataFrame(listings)\<close> for a list of dictionaries: the columns are the keys
      of the records, so an empty list gives a frame without columns.\<close>
  "DataFrame ls =
     \<lparr>columns = (if ls = [] then [] else [''price'', ''title'', ''area'', ''url'', ''sentiment'']),
      rows = ls\<rparr>"

definition scrape_listings :: "env \<Rightarrow> string \<Rightarrow> int \<Rightarrow> dataframe \<times> event list" where
  "scrape_listings E city max_pages =
     (let s = page_loop E city [1..max_pages] \<lparr>listings = [], trace = []\<rparr>
      in (DataFrame (listings s), trace s))"

section \<open>\<^verbatim>\<open>analyze_keywords\<close>\<close>

definition dropna :: "'a option list \<Rightarrow> 'a list" where
  "dropna xs = List.map_filter id xs"

fun join_space :: "string list \<Rightarrow> string" where
  \<comment> \<open>\<^verbatim>\<open>" ".join(...)\<close>\<close>
  "join_space [] = []"
| "join_space [t] = t"
| "join_space (t # ts) = t @ '' '' @ join_space ts"

definition drop_duplicates :: "'a list \<Rightarrow> 'a list" where
  \<comment> \<open>\<^verbatim>\<open>drop_duplicates()\<close> without \<^verbatim>\<open>subset\<close>: rows equal in every column are
      duplicates, and the first of them is kept.\<close>
  "drop_duplicates xs = rev (remdups (rev xs))"

definition sort_values_desc :: "(pyfloat \<times> string) list \<Rightarrow> (pyfloat \<times> string) list" where
  \<comment> \<open>\<^verbatim>\<open>sort_values(by='score', ascending=False)\<close>. The library sorts with
      an unstable quicksort and does not fix the order of rows with equal scores; the
      model keeps them in their given order, so which of several rows tied at the cut
      survive \<^verbatim>\<open>head(20)\<close> can differ. The statements below hold for every order of
      tied rows.\<close>
  "sort_values_desc xs = sort_key (\<lambda>r. - fst r) xs"

definition rank_keywords :: "(pyfloat \<times> string) list \<Rightarrow> (pyfloat \<times> string) list" where
  \<comment> \<open>Lines 102 to 104: the frame of (score, keyword) rows, deduplicated, sorted, cut
      to its first 20 rows.\<close>
  "rank_keywords keywords = take 20 (sort_values_desc (drop_duplicates keywords))"

definition all_titles :: "dataframe \<Rightarrow> error + string" where
  \<comment> \<open>\<^verbatim>\<open>" ".join(df['title'].dropna())\<close>: selecting a column the frame does not
      have raises \<^verbatim>\<open>KeyError\<close>.\<close>
  "all_titles df =
     (if ''title'' \<in> set (columns df) then Inr (join_space (dropna (map title (rows df))))
      else Inl KeyError)"

definition analyze_keywords :: "env \<Rightarrow> dataframe \<Rightarrow> error + (pyfloat \<times> string) list" where
  "analyze_keywords E df =
     (case all_titles df of
        Inl e \<Rightarrow> Inl e
      | Inr corpus \<Rightarrow> Inr (rank_keywords (rake E corpus)))"

section \<open>Predicates used in the statements\<close>

definition no_sleep_before :: "env \<Rightarrow> string \<Rightarrow> int \<Rightarrow> bool" where
  \<comment> \<open>The page leaves the loop body at the \<^verbatim>\<open>except\<close> clause or at the
      \<^verbatim>\<open>continue\<close> of the status check.\<close>
  "no_sleep_before E city page =
     (case requests_get E (page_url city page) of
        Inl e \<Rightarrow> True
      | Inr r \<Rightarrow>
          (if status_code r \<noteq> 200 then True
           else (case find_cards E (content r) of Inl e \<Rightarrow> True | Inr cards \<Rightarrow> False)))"




definition same_phrase_same_score :: "(pyfloat \<times> string) list \<Rightarrow> bool" where
  \<comment> \<open>Rows with equal phrases carry equal scores. The ranker of the code is
      \<^verbatim>\<open>rake_nltk\<close>, which computes the score of a phrase from its words and the
      corpus, so every list it returns has this property.\<close>
  "same_phrase_same_score kws =
     list_all (\<lambda>r. list_all (\<lambda>r'. snd r = snd r' \<longrightarrow> fst r = fst r') kws) kws"

section \<open>Example inputs\<close>

definition ex_polarity :: "string \<Rightarrow> pyfloat" where
  "ex_polarity t = 1 / 2"

definition ex_card :: "string option \<Rightarrow> string option \<Rightarrow> (string \<rightharpoonup> string) option \<Rightarrow> card" where
  "ex_card p t a = \<lparr>price_elem = p, title_elem = t, area_elem = Some ''900 sqft'', a_elem = a\<rparr>"

definition ex_card_flat :: card where
  "ex_card_flat = ex_card (Some ''50 Lakh'') (Some ''2BHK Flat'') (Some [''href'' \<mapsto> ''/flat-1''])"

definition ex_card_studio :: card where
  \<comment> \<open>No price block.\<close>
  "ex_card_studio = ex_card None (Some ''Studio'') None"

definition ex_card_villa :: card where
  "ex_card_villa = ex_card (Some '' 1.2 Cr '') (Some ''3BHK Villa'') None"

definition ex_card_plot :: card where
  \<comment> \<open>A price that parses to zero.\<close>
  "ex_card_plot = ex_card (Some ''0.0'') (Some ''Plot'') None"

definition ex_card_nohref :: card where
  \<comment> \<open>A link without the \<^verbatim>\<open>href\<close> attribute.\<close>
  "ex_card_nohref = ex_card (Some ''75 Lakh'') (Some ''Row House'') (Some Map.empty)"

definition ex_card_blank :: card where
  \<comment> \<open>A title block holding only whitespace.\<close>
  "ex_card_blank = ex_card (Some ''60 Lakh'') (Some ''  '') None"

definition ex_cards :: "card list" where
  \<comment> \<open>The page of the end-to-end scenario, followed by the three special cards.\<close>
  "ex_cards =
     [ex_card_flat, ex_card_studio, ex_card_villa, ex_card_plot, ex_card_nohref, ex_card_blank]"

definition ex_env :: "int \<Rightarrow> (pyfloat \<times> string) list \<Rightarrow> env" where
  \<comment> \<open>Every request is answered with the given status and the example page.\<close>
  "ex_env status kws =
     \<lparr>requests_get = (\<lambda>u. Inr \<lparr>status_code = status, content = ''<html>''\<rparr>),
      find_cards = (\<lambda>m. Inr ex_cards),
      polarity = ex_polarity,
      rake = (\<lambda>corpus. kws)\<rparr>"

definition ex_listing_flat :: listing where
  "ex_listing_flat =
     \<lparr>price = Some 50, title = Some ''2BHK Flat'', area = Some ''900 sqft'',
      url = Some ''https://www.magicbricks.com/flat-1'', sentiment = Some (1 / 2)\<rparr>"

definition ex_listing_villa :: listing where
  "ex_listing_villa =
     \<lparr>price = Some (6 / 5), title = Some ''3BHK Villa'', area = Some ''900 sqft'',
      url = None, sentiment = Some (1 / 2)\<rparr>"

definition ex_listing_blank :: listing where
  "ex_listing_blank =
     \<lparr>price = Some 60, title = Some [], area = Some ''900 sqft'',
      url = None, sentiment = None\<rparr>"

definition ex_keywords :: "(pyfloat \<times> string) list" where
  "ex_keywords = [(1, ''villa''), (4, ''bhk flat''), (1, ''villa''), (9 / 2, ''row house'')]"

section \<open>The loops as folds\<close>


lemma card_loop_truthy:
  "list_all (\<lambda>l. truthy (price l)) acc \<Longrightarrow> list_all (\<lambda>l. truthy (price l)) (card_loop pol cs acc)"
  by (induction cs arbitrary: acc) (auto split: sum.splits)


lemma scrape_page_trace:
  "trace (scrape_page E city p s) =
     trace s @ Get (page_url city p) # (if no_sleep_before E city p then [] else [Sleep 2])"
  by (simp add: scrape_page_def no_sleep_before_def Let_def split: sum.splits)


lemma page_loop_trace:
  "trace (page_loop E city ps s) =
     trace s @ concat (map (\<lambda>p. Get (page_url city p) # (if no_sleep_before E city p then [] else [Sleep 2])) ps)"
proof (induction ps arbitrary: s)
  case Nil
  show ?case by simp
next
  case (Cons p ps)
  show ?case
    using Cons.IH [of "scrape_page E city p s"] scrape_page_trace [of E city p s] by simp
qed

lemma scrape_page_truthy:
  "list_all (\<lambda>l. truthy (price l)) (listings s) \<Longrightarrow>
   list_all (\<lambda>l. truthy (price l)) (listings (scrape_page E city p s))"
  by (simp add: scrape_page_def Let_def card_loop_truthy split: sum.splits)

lemma page_loop_truthy:
  "list_all (\<lambda>l. truthy (price l)) (listings s) \<Longrightarrow>
   list_all (\<lambda>l. truthy (price l)) (listings (page_loop E city ps s))"
  by (induction ps arbitrary: s) (simp_all add: scrape_page_truthy)


section \<open>Deduplication, sorting and truncation\<close>

lemma distinct_drop_duplicates: "distinct (drop_duplicates xs)"
  by (simp add: drop_duplicates_def)

lemma set_drop_duplicates: "set (drop_duplicates xs) = set xs"
  by (simp add: drop_duplicates_def)

lemma set_sort_values_desc: "set (sort_values_desc xs) = set xs"
  by (simp add: sort_values_desc_def)

lemma distinct_sort_values_desc: "distinct (sort_values_desc xs) = distinct xs"
  by (simp add: sort_values_desc_def)

lemma length_sort_values_desc: "length (sort_values_desc xs) = length xs"
  by (simp add: sort_values_desc_def)

lemma sorted_sort_values_desc: "sorted_wrt (\<lambda>a b. b \<le> a) (map fst (sort_values_desc xs))"
proof -
  have "sorted (map (\<lambda>r. - fst r) (sort_values_desc xs))"
    by (simp add: sort_values_desc_def)
  then show ?thesis
    by (simp add: sorted_wrt_map)
qed

lemma distinct_rank_keywords: "distinct (rank_keywords kws)"
  by (simp add: rank_keywords_def distinct_sort_values_desc distinct_drop_duplicates)

lemma set_rank_keywords_subset: "set (rank_keywords kws) \<subseteq> set kws"
  using set_take_subset [of 20 "sort_values_desc (drop_duplicates kws)"]
  by (simp add: rank_keywords_def set_sort_values_desc set_drop_duplicates)

lemma length_rank_keywords: "length (rank_keywords kws) \<le> 20"
  by (simp add: rank_keywords_def)

lemma sorted_rank_keywords: "sorted_wrt (\<lambda>a b. b \<le> a) (map fst (rank_keywords kws))"
proof -
  have "sorted_wrt (\<lambda>a b. b \<le> a) (take 20 (map fst (sort_values_desc (drop_duplicates kws))))"
    using sorted_sort_values_desc [of "drop_duplicates kws"] by (rule sorted_wrt_take)
  then show ?thesis
    by (simp add: rank_keywords_def take_map)
qed

lemma rank_keywords_all:
  assumes "card (set kws) \<le> 20"
  shows "set (rank_keywords kws) = set kws"
proof -
  have "length (drop_duplicates kws) = card (set kws)"
    using distinct_card [OF distinct_drop_duplicates, of kws] by (simp add: set_drop_duplicates)
  then have "length (sort_values_desc (drop_duplicates kws)) \<le> 20"
    using assms by (simp add: length_sort_values_desc)
  then show ?thesis
    by (simp add: rank_keywords_def set_sort_values_desc set_drop_duplicates)
qed

lemma same_phrase_inj: "same_phrase_same_score kws \<Longrightarrow> inj_on snd (set kws)"
  unfolding same_phrase_same_score_def list_all_iff inj_on_def
  by (metis prod.collapse)

lemma distinct_phrases_rank_keywords:
  assumes "same_phrase_same_score kws"
  shows "distinct (map snd (rank_keywords kws))"
proof -
  have "inj_on snd (set (rank_keywords kws))"
    using same_phrase_inj [OF assms] set_rank_keywords_subset [of kws] by (rule inj_on_subset)
  then show ?thesis
    by (simp add: distinct_map distinct_rank_keywords)
qed

lemma same_phrase_card:
  assumes "same_phrase_same_score kws"
  shows "card (set kws) = length (remdups (map snd kws))"
proof -
  have "card (snd ` set kws) = card (set kws)"
    using same_phrase_inj [OF assms] by (rule card_image)
  then show ?thesis
    by (simp add: length_remdups_card_conv)
qed

section \<open>Cards, frames and traces\<close>

lemma analyze_keywords_reached:
  "all_titles df = Inr corpus \<Longrightarrow> analyze_keywords E df = Inr (rank_keywords (rake E corpus))"
  by (simp add: analyze_keywords_def)

lemma all_titles_DataFrame:
  "ls \<noteq> [] \<Longrightarrow> all_titles (DataFrame ls) = Inr (join_space (dropna (map title ls)))"
  by (simp add: all_titles_def DataFrame_def)

lemma truthy_Some: "truthy p \<Longrightarrow> \<exists>v. p = Some v \<and> v \<noteq> 0"
  by (cases p) (simp_all add: truthy_def)

lemma card_loop_skip:
  "make_listing pol c = Inl e \<Longrightarrow> card_loop pol (c # cs) acc = card_loop pol cs acc"
  by simp

lemma make_listing_url:
  "make_listing pol c = Inr l \<Longrightarrow> card_url c = Inr (url l)"
  by (auto simp: make_listing_def Let_def split: sum.splits)

lemma make_listing_price:
  "make_listing pol c = Inr l \<Longrightarrow> extract_price (map_option strip (price_elem c)) = Inr (price l)"
  by (auto simp: make_listing_def Let_def split: sum.splits)

lemma make_listing_no_href:
  "a_elem c = Some attrs \<Longrightarrow> attrs ''href'' = None \<Longrightarrow> \<exists>e. make_listing pol c = Inl e"
  by (simp add: make_listing_def card_url_def Let_def split: sum.splits)






section \<open>The example run\<close>

lemmas price_eval =
  extract_price_def re_search_price_def price_char_def is_digit_def py_float_def

lemma ex_cards_listings:
  "card_loop ex_polarity ex_cards [] = [ex_listing_flat, ex_listing_villa, ex_listing_blank]"
  by code_simp

lemma ex_run_failed:
  "scrape_listings (ex_env 404 kws) ''Mumbai'' 2 =
     (DataFrame [], [Get (page_url ''Mumbai'' 1), Get (page_url ''Mumbai'' 2)])"
  by code_simp

lemma ex_run_ok:
  "scrape_listings (ex_env 200 kws) ''Mumbai'' 1 =
     (DataFrame [ex_listing_flat, ex_listing_villa, ex_listing_blank],
      [Get (page_url ''Mumbai'' 1), Sleep 2])"
  by code_simp

lemma ex_rake: "rake (ex_env status kws) corpus = kws"
  by (simp add: ex_env_def)

lemma ex_keywords_same: "same_phrase_same_score ex_keywords"
  by code_simp

lemma ex_no_sleep:
  "no_sleep_before (ex_env 200 kws) city p = False"
  "no_sleep_before (ex_env 404 kws) city p = True"
  by (simp_all add: no_sleep_before_def ex_env_def)

lemma ex_make_flat: "make_listing ex_polarity ex_card_flat = Inr ex_listing_flat"
  by code_simp

lemma ex_make_villa: "make_listing ex_polarity ex_card_villa = Inr ex_listing_villa"
  by code_simp

lemma ex_make_blank: "make_listing ex_polarity ex_card_blank = Inr ex_listing_blank"
  by code_simp


lemma ex_plot_price: "extract_price (map_option strip (price_elem ex_card_plot)) = Inr (Some 0)"
  by code_simp

lemma ex_rows:
  "rows (fst (scrape_listings (ex_env 200 kws) ''Mumbai'' 1)) = [ex_listing_flat, ex_listing_villa, ex_listing_blank]"
  by (simp add: ex_run_ok DataFrame_def)

lemma ex_flat_titles: "all_titles (DataFrame [ex_listing_flat]) = Inr ''2BHK Flat''"
  by code_simp

lemma ex_keywords_phrases: "length (remdups (map snd ex_keywords)) = 3"
  by code_simp

lemma ex_keywords_ranked:
  "rank_keywords ex_keywords = [(9 / 2, ''row house''), (4, ''bhk flat''), (1, ''villa'')]"
  by code_simp

section \<open>Price extraction\<close>

text \<open>
  C1. The claim: a price text with a digit run gives the number written by its first run
  of digits with at most one decimal point, and a text without digits gives no price.
  The pattern of the code also matches dots that stand alone. For the text
  \<^verbatim>\<open>Rs. 85 Lakh\<close> the match is the dot after \<^verbatim>\<open>Rs\<close>, and converting it raises
  \<^verbatim>\<open>ValueError\<close> where the claim promises 85; for the text \<^verbatim>\<open>Rs.\<close>, which has no
  digit, the same error is raised where the claim promises an absent price.
\<close>

theorem extract_price_lone_dot_raises:
  "extract_price (Some ''Rs. 85 Lakh'') = Inl ValueError \<and>
   extract_price (Some ''Rs.'') = Inl ValueError"
  by (simp add: price_eval)

section \<open>Keywords of an empty run\<close>

text \<open>
  C2. The claim: for the empty collection of listings the keyword analysis returns an
  empty collection and raises nothing. A run whose pages all fail returns the frame built
  from the empty list, which has no columns, and selecting its \<^verbatim>\<open>title\<close> column raises
  \<^verbatim>\<open>KeyError\<close> before the ranker is reached.
\<close>

theorem analyze_keywords_empty_frame_raises:
  "fst (scrape_listings (ex_env 404 ex_keywords) ''Mumbai'' 2) = DataFrame [] \<and>
   analyze_keywords E (DataFrame []) = Inl KeyError"
  by (simp add: ex_run_failed analyze_keywords_def all_titles_def DataFrame_def)

section \<open>Deduplication of the ranked phrases\<close>

text \<open>
  C3. Whenever the keyword analysis reaches the ranker, no two entries of its output have
  the same keyword. The rows are deduplicated as whole (score, phrase) rows; the ranker
  gives equal phrases equal scores, so the rows that survive differ in their phrases.
\<close>

theorem analyze_keywords_unique_keywords:
  assumes "all_titles df = Inr corpus" and "same_phrase_same_score (rake E corpus)"
  shows "\<exists>out. analyze_keywords E df = Inr out \<and> distinct (map snd out)"
  using assms
  by (simp add: analyze_keywords_reached distinct_phrases_rank_keywords)

text \<open>
  C3 at the example keywords, where \<^verbatim>\<open>villa\<close> is reported twice with score 1 and
  is returned once.
\<close>

theorem analyze_keywords_unique_keywords_witness:
  "all_titles (DataFrame [ex_listing_flat]) = Inr ''2BHK Flat'' \<and>
   same_phrase_same_score (rake (ex_env 200 ex_keywords) ''2BHK Flat'') \<and>
   analyze_keywords (ex_env 200 ex_keywords) (DataFrame [ex_listing_flat]) =
     Inr [(9 / 2, ''row house''), (4, ''bhk flat''), (1, ''villa'')] \<and>
   distinct (map snd [(9 / 2 :: pyfloat, ''row house''), (4, ''bhk flat''), (1, ''villa'')])"
proof -
  have s: "same_phrase_same_score (rake (ex_env 200 ex_keywords) ''2BHK Flat'')"
    by (simp add: ex_rake ex_keywords_same)
  have a: "analyze_keywords (ex_env 200 ex_keywords) (DataFrame [ex_listing_flat]) =
             Inr [(9 / 2, ''row house''), (4, ''bhk flat''), (1, ''villa'')]"
    by (simp add: analyze_keywords_reached [OF ex_flat_titles] ex_rake ex_keywords_ranked)
  show ?thesis
    using analyze_keywords_unique_keywords [OF ex_flat_titles s] ex_flat_titles s a by simp
qed

section \<open>Pacing\<close>

text \<open>
  C4, as stated: the pacing delay follows every page, also a page whose fetch fails. In a
  run of two pages that both answer with status 404 the trace holds the two requests and
  no delay: the \<^verbatim>\<open>continue\<close> of the status check leaves the body before
  \<^verbatim>\<open>sleep(2)\<close>.
\<close>

theorem failed_pages_without_sleep:
  "snd (scrape_listings (ex_env 404 ex_keywords) ''Mumbai'' 2) =
     [Get (page_url ''Mumbai'' 1), Get (page_url ''Mumbai'' 2)]"
  by (simp add: ex_run_failed)

text \<open>
  C4, amended: the run requests the pages in order, and the delay of two seconds follows
  the request of a page exactly when the request returned status 200 and the markup was
  searched for cards without an exception; after a failed page the next request follows
  directly.
\<close>

theorem sleep_only_after_completed_page:
  "snd (scrape_listings E city max_pages) =
     concat (map (\<lambda>p. Get (page_url city p) # (if no_sleep_before E city p then [] else [Sleep 2]))
               [1..max_pages])"
  by (simp add: scrape_listings_def Let_def page_loop_trace)

text \<open>The amended C4 on two pages, once with every fetch succeeding and once with none.\<close>

theorem sleep_only_after_completed_page_witness:
  "snd (scrape_listings (ex_env 200 ex_keywords) ''Mumbai'' 2) =
     [Get (page_url ''Mumbai'' 1), Sleep 2, Get (page_url ''Mumbai'' 2), Sleep 2] \<and>
   snd (scrape_listings (ex_env 404 ex_keywords) ''Mumbai'' 2) =
     [Get (page_url ''Mumbai'' 1), Get (page_url ''Mumbai'' 2)]"
proof -
  have u: "[1..2] = [1, 2::int]" by code_simp
  show ?thesis
    using sleep_only_after_completed_page [of "ex_env 200 ex_keywords" "''Mumbai''" 2] sleep_only_after_completed_page [of "ex_env 404 ex_keywords" "''Mumbai''" 2]
    by (simp add: u ex_no_sleep)
qed

section \<open>Listings without a price\<close>

text \<open>
  C5. No listing that the card loop yields for a page has an absent price, whatever its
  other fields are; the card loop itself leaves such listings out.
\<close>

theorem extracted_listing_has_price:
  "l \<in> set (card_loop pol cards []) \<Longrightarrow> price l \<noteq> None"
proof -
  assume "l \<in> set (card_loop pol cards [])"
  then have "truthy (price l)"
    using card_loop_truthy [of "[]" pol cards] by (simp add: list_all_iff)
  then show ?thesis
    using truthy_Some by fastforce
qed

text \<open>C5 on the example page, whose second card has no price block.\<close>

theorem extracted_listing_has_price_witness:
  "ex_listing_villa \<in> set (card_loop ex_polarity ex_cards []) \<and> price ex_listing_villa \<noteq> None"
proof -
  have h: "ex_listing_villa \<in> set (card_loop ex_polarity ex_cards [])"
    by (simp add: ex_cards_listings)
  show ?thesis using h extracted_listing_has_price [OF h] by simp
qed

section \<open>The link of a listing\<close>

text \<open>
  C6, as stated: a card whose link lacks the target attribute gives a listing with an
  absent url. The example card with such a link and the price \<^verbatim>\<open>75 Lakh\<close> gives no
  listing at all: the subscript raises \<^verbatim>\<open>KeyError\<close>, and the card is skipped.
\<close>

theorem link_without_href_skips_card:
  "make_listing ex_polarity ex_card_nohref = Inl KeyError \<and>
   card_loop ex_polarity [ex_card_nohref] [] = []"
  by code_simp

text \<open>
  C6, amended: the url of an extracted listing is absent when the card has no link, and
  is the site origin followed by the target attribute when the link carries it; a card
  whose link lacks the attribute raises inside the card loop and yields no listing.
\<close>

theorem listing_url_cases:
  "(a_elem c = None \<longrightarrow> (\<forall>l. make_listing pol c = Inr l \<longrightarrow> url l = None)) \<and>
   (a_elem c = Some attrs \<and> attrs ''href'' = Some h \<longrightarrow>
      (\<forall>l. make_listing pol c = Inr l \<longrightarrow> url l = Some (base_url @ h))) \<and>
   (a_elem c = Some attrs \<and> attrs ''href'' = None \<longrightarrow>
      (\<exists>e. make_listing pol c = Inl e) \<and> card_loop pol (c # cs) acc = card_loop pol cs acc)"
proof (intro conjI impI allI)
  fix l assume "a_elem c = None" "make_listing pol c = Inr l"
  then show "url l = None"
    using make_listing_url [of pol c l] by (simp add: card_url_def)
next
  fix l assume "a_elem c = Some attrs \<and> attrs ''href'' = Some h" "make_listing pol c = Inr l"
  then show "url l = Some (base_url @ h)"
    using make_listing_url [of pol c l] by (simp add: card_url_def)
next
  assume "a_elem c = Some attrs \<and> attrs ''href'' = None"
  then show "\<exists>e. make_listing pol c = Inl e"
    using make_listing_no_href [of c attrs pol] by simp
next
  assume "a_elem c = Some attrs \<and> attrs ''href'' = None"
  then obtain e where "make_listing pol c = Inl e"
    using make_listing_no_href [of c attrs pol] by auto
  then show "card_loop pol (c # cs) acc = card_loop pol cs acc"
    by (rule card_loop_skip)
qed

text \<open>The amended C6 on the three example cards.\<close>

theorem listing_url_cases_witness:
  "a_elem ex_card_villa = None \<and> make_listing ex_polarity ex_card_villa = Inr ex_listing_villa \<and>
     url ex_listing_villa = None \<and>
   a_elem ex_card_flat = Some [''href'' \<mapsto> ''/flat-1''] \<and>
     make_listing ex_polarity ex_card_flat = Inr ex_listing_flat \<and>
     url ex_listing_flat = Some (base_url @ ''/flat-1'') \<and>
   a_elem ex_card_nohref = Some Map.empty \<and>
     card_loop ex_polarity [ex_card_nohref] [] = []"
  using listing_url_cases [where c = ex_card_villa and pol = ex_polarity]
    listing_url_cases [where c = ex_card_flat and pol = ex_polarity and attrs = "[''href'' \<mapsto> ''/flat-1'']"
          and h = "''/flat-1''"]
    listing_url_cases [where c = ex_card_nohref and pol = ex_polarity and attrs = Map.empty and cs = "[]"
          and acc = "[]"]
    ex_make_villa ex_make_flat
  by (simp add: ex_card_villa_def ex_card_flat_def ex_card_nohref_def ex_card_def)

section \<open>The page loop ends and returns what it gathered\<close>



section \<open>The top twenty\<close>

text \<open>
  C8. Whenever the keyword analysis reaches the ranker, its output has at most 20 entries
  and is sorted by score from high to low; when the ranker output holds at most 20
  distinct phrases (fewer than 20 in particular), every row of it, and so every phrase,
  is returned.
\<close>

theorem analyze_keywords_top20:
  assumes "all_titles df = Inr corpus" and "same_phrase_same_score (rake E corpus)"
  shows "\<exists>out. analyze_keywords E df = Inr out \<and> length out \<le> 20 \<and>
           sorted_wrt (\<lambda>a b. b \<le> a) (map fst out) \<and>
           (length (remdups (map snd (rake E corpus))) \<le> 20 \<longrightarrow>
              set out = set (rake E corpus) \<and>
              set (map snd out) = set (map snd (rake E corpus)))"
proof -
  let ?kws = "rake E corpus"
  have a: "analyze_keywords E df = Inr (rank_keywords ?kws)"
    using assms(1) by (rule analyze_keywords_reached)
  have d: "set (rank_keywords ?kws) = set ?kws" if "length (remdups (map snd ?kws)) \<le> 20"
    using that same_phrase_card [OF assms(2)] rank_keywords_all [of ?kws] by simp
  show ?thesis
    using a d length_rank_keywords [of ?kws] sorted_rank_keywords [of ?kws] by simp
qed

text \<open>C8 at the example keywords, which hold three distinct phrases.\<close>

theorem analyze_keywords_top20_witness:
  "all_titles (DataFrame [ex_listing_flat]) = Inr ''2BHK Flat'' \<and>
   same_phrase_same_score (rake (ex_env 200 ex_keywords) ''2BHK Flat'') \<and>
   length (remdups (map snd (rake (ex_env 200 ex_keywords) ''2BHK Flat''))) \<le> 20 \<and>
   (\<exists>out. analyze_keywords (ex_env 200 ex_keywords) (DataFrame [ex_listing_flat]) = Inr out \<and>
      length out \<le> 20 \<and> sorted_wrt (\<lambda>a b. b \<le> a) (map fst out) \<and>
      set out = set ex_keywords \<and> set (map snd out) = set (map snd ex_keywords))"
proof -
  have s: "same_phrase_same_score (rake (ex_env 200 ex_keywords) ''2BHK Flat'')"
    by (simp add: ex_rake ex_keywords_same)
  show ?thesis
    using analyze_keywords_top20 [OF ex_flat_titles s] ex_flat_titles s
    by (simp add: ex_rake ex_keywords_phrases)
qed

section \<open>A price of zero\<close>

text \<open>
  C9. A card whose price text parses to zero adds nothing to the collection, and every
  listing of the frame a run returns has a present, nonzero price: the card loop keeps a
  listing by the truth value of its price.
\<close>

theorem zero_price_dropped:
  "(extract_price (map_option strip (price_elem c)) = Inr (Some 0) \<longrightarrow>
      card_loop pol (c # cs) acc = card_loop pol cs acc) \<and>
   (\<forall>l \<in> set (rows (fst (scrape_listings E city max_pages))). \<exists>p. price l = Some p \<and> p \<noteq> 0)"
proof (intro conjI impI ballI)
  assume z: "extract_price (map_option strip (price_elem c)) = Inr (Some 0)"
  show "card_loop pol (c # cs) acc = card_loop pol cs acc"
  proof (cases "make_listing pol c")
    case (Inl e)
    then show ?thesis by simp
  next
    case (Inr l)
    then have "price l = Some 0"
      using make_listing_price [of pol c l] z by simp
    then show ?thesis
      using Inr by (simp add: truthy_def)
  qed
next
  fix l assume "l \<in> set (rows (fst (scrape_listings E city max_pages)))"
  then have "truthy (price l)"
    using page_loop_truthy [of "\<lparr>listings = [], trace = []\<rparr>" E city "[1..max_pages]"]
    by (simp add: scrape_listings_def Let_def DataFrame_def list_all_iff)
  then show "\<exists>p. price l = Some p \<and> p \<noteq> 0"
    by (rule truthy_Some)
qed

text \<open>C9 on the example card priced \<^verbatim>\<open>0.0\<close> and on the example run.\<close>

theorem zero_price_dropped_witness:
  "extract_price (map_option strip (price_elem ex_card_plot)) = Inr (Some 0) \<and>
   card_loop ex_polarity [ex_card_plot] [] = [] \<and>
   ex_listing_villa \<in> set (rows (fst (scrape_listings (ex_env 200 ex_keywords) ''Mumbai'' 1))) \<and>
   (\<exists>p. price ex_listing_villa = Some p \<and> p \<noteq> 0)"
  using zero_price_dropped [where c = ex_card_plot and pol = ex_polarity and cs = "[]" and acc = "[]"
      and E = "ex_env 200 ex_keywords" and city = "''Mumbai''" and max_pages = 1]
    ex_plot_price
  by (simp add: ex_rows)

section \<open>A blank title\<close>

text \<open>
  C10. A card whose title block is present and whose stripped text is empty gives a
  listing with the empty string as title and with no sentiment.
\<close>

theorem blank_title_no_sentiment:
  assumes "title_elem c = Some t" and "strip t = []" and "make_listing pol c = Inr l"
  shows "title l = Some [] \<and> sentiment l = None"
  using assms
  by (auto simp: make_listing_def Let_def analyze_sentiment_def split: sum.splits)

text \<open>C10 on the example card whose title is two spaces; the card does give a listing.\<close>

theorem blank_title_no_sentiment_witness:
  "title_elem ex_card_blank = Some ''  '' \<and> strip ''  '' = [] \<and>
   make_listing ex_polarity ex_card_blank = Inr ex_listing_blank \<and>
   title ex_listing_blank = Some [] \<and> sentiment ex_listing_blank = None"
proof -
  have a: "title_elem ex_card_blank = Some ''  ''"
    by (simp add: ex_card_blank_def ex_card_def)
  have b: "strip ''  '' = []"
    by code_simp
  show ?thesis
    using a b ex_make_blank blank_title_no_sentiment [OF a b ex_make_blank] by simp
qed

end
